theory Spec2Isabelle
  imports Complex_Main "HOL-Library.Signed_Division" "HOL-Library.State_Monad"
begin

section \<open>The float64 arithmetic as a parameter\<close>

text \<open>
  \<^verbatim>\<open>type Value float64\<close>. The functions of the file are embedded over an arbitrary
  arithmetic: a type \<open>'f\<close> of float64 values with the operations the file uses. What
  \<^verbatim>\<open>+\<close>, \<^verbatim>\<open>-\<close>, \<^verbatim>\<open>*\<close>, \<^verbatim>\<open>/\<close>, \<^verbatim>\<open><=\<close>, \<^verbatim>\<open>math.Sqrt\<close> and
  \<^verbatim>\<open>math.Exp\<close> return (rounding, overflow, underflow, signed zeros) is the
  arithmetic's business, so a property proved for every arithmetic holds for the
  machine's. \<open>fp_of_real\<close> converts an exactly given number to float64: a constant of the
  source (\<^verbatim>\<open>1\<close>, \<^verbatim>\<open>2\<close>, \<^verbatim>\<open>2*math.Pi\<close>, the zero value) or an \<^verbatim>\<open>int\<close> in
  \<^verbatim>\<open>Value(...)\<close>. Each operator of the source is one operation of the arithmetic;
  a compiler that fuses a product with a sum is not modelled.
\<close>

record 'f arith =
  fp_add :: "'f \<Rightarrow> 'f \<Rightarrow> 'f"
  fp_sub :: "'f \<Rightarrow> 'f \<Rightarrow> 'f"
  fp_mul :: "'f \<Rightarrow> 'f \<Rightarrow> 'f"
  fp_quo :: "'f \<Rightarrow> 'f \<Rightarrow> 'f"
  fp_neg :: "'f \<Rightarrow> 'f"
  fp_le :: "'f \<Rightarrow> 'f \<Rightarrow> bool"
  fp_of_real :: "real \<Rightarrow> 'f"
  fp_Sqrt :: "'f \<Rightarrow> 'f"
  fp_Exp :: "'f \<Rightarrow> 'f"

section \<open>An idealised float64\<close>

text \<open>
  One arithmetic, for the closed scenarios and the degenerate states below: a float64 is
  a finite real, one of the two infinities, or NaN. The special values follow IEEE 754
  (what Go's operators and package math do): an undefined operation gives NaN, NaN is
  contagious, every ordered comparison with NaN is false, a non-zero quotient by zero is
  an infinity and 0/0 is NaN. Two things are idealised: finite results are exact (no
  rounding, overflow or underflow), and the sign of a zero is not tracked (a quotient by
  zero takes the sign of its numerator, as for +0). It agrees with the machine where
  every operation involved is exact or is decided by the special values; only such
  computations are evaluated in it.
\<close>

datatype float64 = Fin real | PInf | NInf | NaN

type_synonym Value = float64

fun fneg :: "float64 \<Rightarrow> float64" where
  "fneg (Fin x) = Fin (- x)"
| "fneg PInf = NInf"
| "fneg NInf = PInf"
| "fneg NaN = NaN"

fun fadd :: "float64 \<Rightarrow> float64 \<Rightarrow> float64" where
  "fadd NaN _ = NaN"
| "fadd _ NaN = NaN"
| "fadd (Fin x) (Fin y) = Fin (x + y)"
| "fadd PInf NInf = NaN"
| "fadd NInf PInf = NaN"
| "fadd PInf _ = PInf"
| "fadd _ PInf = PInf"
| "fadd NInf _ = NInf"
| "fadd _ NInf = NInf"

definition fsub :: "float64 \<Rightarrow> float64 \<Rightarrow> float64" where
  "fsub a b = fadd a (fneg b)"

fun fmul :: "float64 \<Rightarrow> float64 \<Rightarrow> float64" where
  "fmul NaN _ = NaN"
| "fmul _ NaN = NaN"
| "fmul (Fin x) (Fin y) = Fin (x * y)"
| "fmul (Fin x) PInf = (if x = 0 then NaN else if 0 < x then PInf else NInf)"
| "fmul (Fin x) NInf = (if x = 0 then NaN else if 0 < x then NInf else PInf)"
| "fmul PInf (Fin y) = (if y = 0 then NaN else if 0 < y then PInf else NInf)"
| "fmul NInf (Fin y) = (if y = 0 then NaN else if 0 < y then NInf else PInf)"
| "fmul PInf PInf = PInf"
| "fmul PInf NInf = NInf"
| "fmul NInf PInf = NInf"
| "fmul NInf NInf = PInf"

fun fdiv :: "float64 \<Rightarrow> float64 \<Rightarrow> float64" where
  "fdiv NaN _ = NaN"
| "fdiv _ NaN = NaN"
| "fdiv (Fin x) (Fin y) =
     (if y \<noteq> 0 then Fin (x / y)
      else if x = 0 then NaN else if 0 < x then PInf else NInf)"
| "fdiv (Fin x) PInf = Fin 0"
| "fdiv (Fin x) NInf = Fin 0"
| "fdiv PInf (Fin y) = (if 0 \<le> y then PInf else NInf)"
| "fdiv NInf (Fin y) = (if 0 \<le> y then NInf else PInf)"
| "fdiv PInf PInf = NaN"
| "fdiv PInf NInf = NaN"
| "fdiv NInf PInf = NaN"
| "fdiv NInf NInf = NaN"

text \<open>\<^verbatim>\<open>a <= b\<close> and \<^verbatim>\<open>a < b\<close> on float64.\<close>

fun fle :: "float64 \<Rightarrow> float64 \<Rightarrow> bool" where
  "fle NaN _ = False"
| "fle _ NaN = False"
| "fle (Fin x) (Fin y) = (x \<le> y)"
| "fle NInf _ = True"
| "fle _ PInf = True"
| "fle PInf _ = False"
| "fle _ NInf = False"

fun flt :: "float64 \<Rightarrow> float64 \<Rightarrow> bool" where
  "flt NaN _ = False"
| "flt _ NaN = False"
| "flt (Fin x) (Fin y) = (x < y)"
| "flt NInf NInf = False"
| "flt NInf _ = True"
| "flt PInf _ = False"
| "flt _ PInf = True"
| "flt _ NInf = False"

text \<open>\<^verbatim>\<open>math.Sqrt\<close> and \<^verbatim>\<open>math.Exp\<close> with their special cases.\<close>

fun math_Sqrt :: "float64 \<Rightarrow> float64" where
  "math_Sqrt (Fin x) = (if x < 0 then NaN else Fin (sqrt x))"
| "math_Sqrt PInf = PInf"
| "math_Sqrt NInf = NaN"
| "math_Sqrt NaN = NaN"

fun math_Exp :: "float64 \<Rightarrow> float64" where
  "math_Exp (Fin x) = Fin (exp x)"
| "math_Exp PInf = PInf"
| "math_Exp NInf = Fin 0"
| "math_Exp NaN = NaN"

definition ideal :: "float64 arith" where
  "ideal = \<lparr>fp_add = fadd, fp_sub = fsub, fp_mul = fmul, fp_quo = fdiv, fp_neg = fneg,
            fp_le = fle, fp_of_real = Fin, fp_Sqrt = math_Sqrt, fp_Exp = math_Exp\<rparr>"

section \<open>Panics\<close>

text \<open>
  The run-time panics that the operations of the file can raise: an integer division by
  zero and a slice expression out of range. \<^verbatim>\<open>int\<close> is modelled by the
  mathematical integers: the only integer arithmetic of the file is \<^verbatim>\<open>l+1\<close> on
  the length of a slice.
\<close>

datatype panic = DivideByZero | SliceBoundsOutOfRange

definition int_quo :: "int \<Rightarrow> int \<Rightarrow> panic + int" where
  \<comment> \<open>Go's integer \<^verbatim>\<open>a / b\<close>: truncated towards zero.\<close>
  "int_quo a b = (if b = 0 then Inl DivideByZero else Inr (a sdiv b))"

definition slice_from :: "nat \<Rightarrow> 'a list \<Rightarrow> panic + 'a list" where
  \<comment> \<open>\<^verbatim>\<open>s[i:]\<close>\<close>
  "slice_from i s = (if length s < i then Inl SliceBoundsOutOfRange else Inr (drop i s))"

section \<open>Reading the receiver\<close>

text \<open>
  \<^verbatim>\<open>factors.New\<close> and \<^verbatim>\<open>Analyze\<close> are written as computations on their
  receiver, in the state monad: the state is the receiver, \<open>read_field\<close> reads one of its
  fields, and an assignment to a field would be a \<open>State_Monad.set\<close>. What a call leaves
  behind is then the second component of its run.
\<close>

definition read_field :: "('s \<Rightarrow> 'a) \<Rightarrow> ('s, 'a) state" where
  "read_field sel = State (\<lambda>s. (sel s, s))"

section \<open>Value\<close>

definition Value_sqrt_on :: "'f arith \<Rightarrow> 'f \<Rightarrow> 'f" where
  "Value_sqrt_on M v = fp_Sqrt M v"

definition square_on :: "'f arith \<Rightarrow> 'f \<Rightarrow> 'f" where
  "square_on M v = fp_mul M v v"

section \<open>Config\<close>

record 'f Config =
  trainingPeriod :: int
  alpha0Weight :: 'f
  betaWeight :: 'f

text \<open>
  The two errors of \<^verbatim>\<open>NewConfig\<close>: \<^verbatim>\<open>errors.New("alpha0 weight is invalid")\<close>
  and \<^verbatim>\<open>errors.New("beta weight is invalid")\<close>.
\<close>

datatype config_error = InvalidAlpha | InvalidBeta

text \<open>
  \<^verbatim>\<open>NewConfig\<close> stores \<^verbatim>\<open>alpha0Weight: adapt\<close>. The identifier
  \<^verbatim>\<open>adapt\<close> is not declared in the file; it is the first parameter here. The
  function only compares its arguments with 0 and 1.
\<close>

definition NewConfig ::
    "float64 \<Rightarrow> int \<Rightarrow> float64 \<Rightarrow> float64 \<Rightarrow> config_error + float64 Config" where
  "NewConfig adapt t alpha0 beta =
     (if fle alpha0 (Fin 0) \<or> fle (Fin 1) alpha0 then Inl InvalidAlpha
      else if flt beta (Fin 0) \<or> fle (Fin 1) beta then Inl InvalidBeta
      else Inr \<lparr>trainingPeriod = t, alpha0Weight = adapt, betaWeight = beta\<rparr>)"

section \<open>factors\<close>

record 'f factors =
  s1 :: 'f
  s2 :: 'f
  stdDeviation :: 'f

definition zt_on :: "'f arith \<Rightarrow> 'f factors \<Rightarrow> 'f \<Rightarrow> 'f" where
  "zt_on M f v = fp_quo M (fp_sub M v (s1 f)) (stdDeviation f)"

definition pt_on :: "'f arith \<Rightarrow> 'f factors \<Rightarrow> 'f \<Rightarrow> 'f" where
  "pt_on M f v =
     (let z = zt_on M f v
      in fp_quo M (fp_Exp M (fp_quo M (fp_neg M (fp_mul M z z)) (fp_of_real M 2)))
                  (fp_Sqrt M (fp_of_real M (2 * pi))))"

definition detectAnomaly_on :: "'f arith \<Rightarrow> 'f factors \<Rightarrow> 'f \<Rightarrow> 'f \<Rightarrow> bool" where
  "detectAnomaly_on M f threshold v = fp_le M (pt_on M f v) threshold"

text \<open>
  \<^verbatim>\<open>func (f factors) New(alpha Value, v Value) factors\<close>, the receiver \<open>f\<close> being the
  state; \<open>factors_New_on\<close> is the value it returns.
\<close>

definition factors_New_call :: "'f arith \<Rightarrow> 'f \<Rightarrow> 'f \<Rightarrow> ('f factors, 'f factors) state" where
  "factors_New_call M alpha v = do {
     f_s1 \<leftarrow> read_field s1;
     f_s2 \<leftarrow> read_field s2;
     let s1' = fp_add M (fp_mul M alpha f_s1) (fp_mul M (fp_sub M (fp_of_real M 1) alpha) v);
     let s2' = fp_add M (fp_mul M alpha f_s2)
                        (fp_mul M (fp_sub M (fp_of_real M 1) alpha) (square_on M v));
     let stdDeviation' = Value_sqrt_on M (fp_sub M s2' (square_on M s1'));
     State_Monad.return \<lparr>s1 = s1', s2 = s2', stdDeviation = stdDeviation'\<rparr>
   }"

definition factors_New_on :: "'f arith \<Rightarrow> 'f factors \<Rightarrow> 'f \<Rightarrow> 'f \<Rightarrow> 'f factors" where
  "factors_New_on M f alpha v = fst (run_state (factors_New_call M alpha v) f)"

section \<open>PEWMA\<close>

text \<open>
  The slice \<^verbatim>\<open>captured\<close> is modelled by the list of its elements. On a chain
  of \<^verbatim>\<open>Add\<close>, each called on the result of the one before, that is what every
  processor of the chain sees of its slice: \<^verbatim>\<open>append\<close> writes only past the end
  of the slices made earlier. Two calls of \<^verbatim>\<open>Add\<close> on one processor may write to
  the same cell of a shared backing array; nothing below is about such a use.
\<close>

record 'f PEWMA =
  captured :: "'f list"
  config :: "'f Config"
  factors :: "'f factors"

definition New_on :: "'f arith \<Rightarrow> 'f Config \<Rightarrow> 'f PEWMA" where
  "New_on M conf =
     \<lparr>captured = [], config = conf,
      factors = \<lparr>s1 = fp_of_real M 0, s2 = fp_of_real M 0, stdDeviation = fp_of_real M 0\<rparr>\<rparr>"

text \<open>
  In \<^verbatim>\<open>Value(1 - 1.0/(l+1))\<close> the operand \<^verbatim>\<open>l+1\<close> is an \<^verbatim>\<open>int\<close>, so the
  untyped constants take type \<^verbatim>\<open>int\<close> and the quotient is an integer division; the
  conversion to \<^verbatim>\<open>Value\<close> comes last.
\<close>

definition alpha_on :: "'f arith \<Rightarrow> 'f PEWMA \<Rightarrow> 'f \<Rightarrow> panic + 'f" where
  "alpha_on M p v =
     (let conf = config p; l = int (length (captured p))
      in if l < trainingPeriod conf
         then (case int_quo 1 (l + 1) of
                 Inl e \<Rightarrow> Inl e
               | Inr q \<Rightarrow> Inr (fp_of_real M (real_of_int (1 - q))))
         else (let f = factors p
               in Inr (fp_mul M (fp_sub M (fp_of_real M 1)
                                          (fp_mul M (betaWeight conf) (pt_on M f v)))
                                (alpha0Weight conf))))"

datatype Status = InTraining | InOrdinary | Outlier

text \<open>
  \<^verbatim>\<open>func (p *PEWMA) Analyze(v Value, threshold float64) Status\<close>, the processor
  behind the receiver being the state; \<open>Analyze_on\<close> is the status it returns.
\<close>

definition Analyze_call :: "'f arith \<Rightarrow> 'f \<Rightarrow> 'f \<Rightarrow> ('f PEWMA, Status) state" where
  "Analyze_call M v threshold = do {
     conf \<leftarrow> read_field config;
     p_captured \<leftarrow> read_field captured;
     if int (length p_captured) < trainingPeriod conf then State_Monad.return InTraining
     else do {
       p_factors \<leftarrow> read_field factors;
       if detectAnomaly_on M p_factors threshold v then State_Monad.return Outlier
       else State_Monad.return InOrdinary
     }
   }"

definition Analyze_on :: "'f arith \<Rightarrow> 'f PEWMA \<Rightarrow> 'f \<Rightarrow> 'f \<Rightarrow> Status" where
  "Analyze_on M p v threshold = fst (run_state (Analyze_call M v threshold) p)"

definition pushAndPop :: "'f PEWMA \<Rightarrow> 'f \<Rightarrow> panic + 'f list" where
  "pushAndPop p v =
     (let newCaptured = captured p @ [v]
      in if trainingPeriod (config p) < int (length newCaptured)
         then slice_from 1 newCaptured
         else Inr newCaptured)"

definition Add_on :: "'f arith \<Rightarrow> 'f PEWMA \<Rightarrow> 'f \<Rightarrow> panic + 'f PEWMA" where
  "Add_on M p v =
     (case alpha_on M p v of
        Inl e \<Rightarrow> Inl e
      | Inr a \<Rightarrow>
          (case pushAndPop p v of
             Inl e \<Rightarrow> Inl e
           | Inr c \<Rightarrow> Inr \<lparr>captured = c, config = config p,
                            factors = factors_New_on M (factors p) a v\<rparr>))"

text \<open>A caller's chain \<^verbatim>\<open>p.Add(v1).Add(v2)...\<close>; a panic ends it.\<close>

fun Add_all_on :: "'f arith \<Rightarrow> 'f PEWMA \<Rightarrow> 'f list \<Rightarrow> panic + 'f PEWMA" where
  "Add_all_on M p [] = Inr p"
| "Add_all_on M p (v # vs) =
     (case Add_on M p v of Inl e \<Rightarrow> Inl e | Inr p' \<Rightarrow> Add_all_on M p' vs)"

text \<open>The same functions in the idealised arithmetic.\<close>

abbreviation pt :: "float64 factors \<Rightarrow> Value \<Rightarrow> float64" where
  "pt \<equiv> pt_on ideal"

abbreviation factors_New :: "float64 factors \<Rightarrow> Value \<Rightarrow> Value \<Rightarrow> float64 factors" where
  "factors_New \<equiv> factors_New_on ideal"

abbreviation New :: "float64 Config \<Rightarrow> float64 PEWMA" where
  "New \<equiv> New_on ideal"

abbreviation alpha :: "float64 PEWMA \<Rightarrow> Value \<Rightarrow> panic + Value" where
  "alpha \<equiv> alpha_on ideal"

abbreviation Analyze :: "float64 PEWMA \<Rightarrow> Value \<Rightarrow> float64 \<Rightarrow> Status" where
  "Analyze \<equiv> Analyze_on ideal"

abbreviation Add :: "float64 PEWMA \<Rightarrow> Value \<Rightarrow> panic + float64 PEWMA" where
  "Add \<equiv> Add_on ideal"

abbreviation Add_all :: "float64 PEWMA \<Rightarrow> Value list \<Rightarrow> panic + float64 PEWMA" where
  "Add_all \<equiv> Add_all_on ideal"

section \<open>Facts about the operations\<close>

lemma ideal_simps [simp]:
  "fp_add ideal = fadd" "fp_sub ideal = fsub" "fp_mul ideal = fmul" "fp_quo ideal = fdiv"
  "fp_neg ideal = fneg" "fp_le ideal = fle" "fp_of_real ideal = Fin"
  "fp_Sqrt ideal = math_Sqrt" "fp_Exp ideal = math_Exp"
  by (simp_all add: ideal_def)

lemma run_read_field [simp]: "run_state (read_field sel) s = (sel s, s)"
  by (simp add: read_field_def)

lemma int_quo_one: "int_quo 1 (int n + 1) = Inr (if n = 0 then 1 else 0)"
  by (simp add: int_quo_def signed_divide_int_def)

text \<open>What a run of \<^verbatim>\<open>factors.New\<close> returns and leaves behind.\<close>

lemma run_factors_New_call:
  "run_state (factors_New_call M a v) f =
     (\<lparr>s1 = fp_add M (fp_mul M a (s1 f)) (fp_mul M (fp_sub M (fp_of_real M 1) a) v),
       s2 = fp_add M (fp_mul M a (s2 f))
                     (fp_mul M (fp_sub M (fp_of_real M 1) a) (fp_mul M v v)),
       stdDeviation =
         fp_Sqrt M
           (fp_sub M
             (fp_add M (fp_mul M a (s2 f))
                       (fp_mul M (fp_sub M (fp_of_real M 1) a) (fp_mul M v v)))
             (fp_mul M
               (fp_add M (fp_mul M a (s1 f)) (fp_mul M (fp_sub M (fp_of_real M 1) a) v))
               (fp_add M (fp_mul M a (s1 f))
                         (fp_mul M (fp_sub M (fp_of_real M 1) a) v))))\<rparr>,
      f)"
  by (simp add: factors_New_call_def Let_def square_on_def Value_sqrt_on_def)

text \<open>What a run of \<^verbatim>\<open>Analyze\<close> returns and leaves behind.\<close>

lemma run_Analyze_call:
  "run_state (Analyze_call M v threshold) p =
     (if int (length (captured p)) < trainingPeriod (config p) then InTraining
      else if fp_le M (pt_on M (factors p) v) threshold then Outlier
      else InOrdinary,
      p)"
  by (simp add: Analyze_call_def detectAnomaly_on_def)

lemma Analyze_on_eq:
  "Analyze_on M p v threshold =
     (if int (length (captured p)) < trainingPeriod (config p) then InTraining
      else if fp_le M (pt_on M (factors p) v) threshold then Outlier
      else InOrdinary)"
  by (simp add: Analyze_on_def run_Analyze_call)

text \<open>The weight during warm-up, as the integer quotient makes it.\<close>

lemma alpha_warmup:
  "int (length (captured p)) < trainingPeriod (config p) \<Longrightarrow>
   alpha_on M p v = Inr (fp_of_real M (if captured p = [] then 0 else 1))"
  by (simp add: alpha_on_def Let_def int_quo_one)

lemma alpha_trained:
  "\<not> int (length (captured p)) < trainingPeriod (config p) \<Longrightarrow>
   alpha_on M p v =
     Inr (fp_mul M (fp_sub M (fp_of_real M 1)
                            (fp_mul M (betaWeight (config p)) (pt_on M (factors p) v)))
                   (alpha0Weight (config p)))"
  by (simp add: alpha_on_def Let_def)

lemma alpha_total: "\<exists>a. alpha_on M p v = Inr a"
  by (cases "int (length (captured p)) < trainingPeriod (config p)")
     (simp_all add: alpha_warmup alpha_trained)

lemma pushAndPop_eq:
  "pushAndPop p v =
     Inr (if trainingPeriod (config p) < int (length (captured p)) + 1
          then drop 1 (captured p @ [v]) else captured p @ [v])"
  by (simp add: pushAndPop_def Let_def slice_from_def)

lemma Add_of_alpha:
  "alpha_on M p v = Inr a \<Longrightarrow>
   Add_on M p v =
     Inr \<lparr>captured = (if trainingPeriod (config p) < int (length (captured p)) + 1
                      then drop 1 (captured p @ [v]) else captured p @ [v]),
          config = config p,
          factors = factors_New_on M (factors p) a v\<rparr>"
  by (simp add: Add_on_def pushAndPop_eq)

lemma Add_warmup:
  "int (length (captured p)) < trainingPeriod (config p) \<Longrightarrow>
   Add_on M p v =
     Inr \<lparr>captured = captured p @ [v], config = config p,
          factors = factors_New_on M (factors p)
                      (fp_of_real M (if captured p = [] then 0 else 1)) v\<rparr>"
  by (simp add: Add_of_alpha [OF alpha_warmup])

text \<open>The update on finite numbers, in the idealised arithmetic.\<close>

lemma factors_New_Fin:
  "factors_New \<lparr>s1 = Fin m, s2 = Fin q, stdDeviation = d\<rparr> (Fin a) (Fin x) =
     \<lparr>s1 = Fin (a * m + (1 - a) * x),
      s2 = Fin (a * q + (1 - a) * (x * x)),
      stdDeviation =
        (if a * q + (1 - a) * (x * x) - (a * m + (1 - a) * x) * (a * m + (1 - a) * x) < 0
         then NaN
         else Fin (sqrt (a * q + (1 - a) * (x * x)
                         - (a * m + (1 - a) * x) * (a * m + (1 - a) * x))))\<rparr>"
  by (simp add: factors_New_on_def run_factors_New_call fsub_def)

lemma fmul_one_left: "fmul (Fin 1) a = a"
  by (cases a) simp_all

text \<open>The density against a standard deviation of exactly zero.\<close>

lemma pt_zero_std_ne:
  "stdDeviation f = Fin 0 \<Longrightarrow> v \<noteq> s1 f \<Longrightarrow> v \<noteq> NaN \<Longrightarrow> s1 f \<noteq> NaN \<Longrightarrow> pt f v = Fin 0"
  by (cases v; cases "s1 f") (simp_all add: pt_on_def zt_on_def fsub_def Let_def)

lemma pt_zero_std_eq:
  "stdDeviation f = Fin 0 \<Longrightarrow> v = s1 f \<Longrightarrow> pt f v = NaN"
  by (cases "s1 f") (simp_all add: pt_on_def zt_on_def fsub_def Let_def)

text \<open>
  The window after a chain of \<^verbatim>\<open>Add\<close>, from any processor whose history fits its
  training period: the chain does not panic, keeps the configuration, and the history is
  the old one followed by the new values, cut to the last \<open>trainingPeriod\<close> elements.
\<close>

lemma Add_all_captured:
  "int (length (captured p)) \<le> trainingPeriod (config p) \<Longrightarrow>
   \<exists>p'. Add_all_on M p vs = Inr p' \<and> config p' = config p
     \<and> captured p' = drop (length (captured p) + length vs - nat (trainingPeriod (config p)))
                           (captured p @ vs)"
proof (induction vs arbitrary: p)
  case Nil
  then show ?case by simp
next
  case (Cons v vs)
  obtain a where a: "alpha_on M p v = Inr a"
    using alpha_total [of M p v] by blast
  define p1 where
    "p1 = \<lparr>captured = (if trainingPeriod (config p) < int (length (captured p)) + 1
                       then drop 1 (captured p @ [v]) else captured p @ [v]),
           config = config p,
           factors = factors_New_on M (factors p) a v\<rparr>"
  have step: "Add_on M p v = Inr p1"
    unfolding p1_def by (rule Add_of_alpha [OF a])
  have conf: "config p1 = config p"
    by (simp add: p1_def)
  show ?case
  proof (cases "int (length (captured p)) < trainingPeriod (config p)")
    case True
    then have cap: "captured p1 = captured p @ [v]"
      by (simp add: p1_def)
    have "int (length (captured p1)) \<le> trainingPeriod (config p1)"
      using True by (simp add: cap conf)
    from Cons.IH [OF this] show ?thesis
      by (simp add: step cap conf)
  next
    case False
    with Cons.prems have full: "int (length (captured p)) = trainingPeriod (config p)"
      by simp
    then have cap: "captured p1 = drop 1 (captured p @ [v])"
      by (simp add: p1_def)
    have len: "length (captured p1) = length (captured p)"
      by (simp add: cap)
    have n: "nat (trainingPeriod (config p)) = length (captured p)"
      using full by simp
    have "int (length (captured p1)) \<le> trainingPeriod (config p1)"
      using full by (simp add: len conf)
    from Cons.IH [OF this] obtain p' where run: "Add_all_on M p1 vs = Inr p'"
      and conf': "config p' = config p1"
      and cap': "captured p' =
        drop (length (captured p1) + length vs - nat (trainingPeriod (config p1)))
             (captured p1 @ vs)"
      by blast
    have e: "captured p1 @ vs = drop 1 (captured p @ v # vs)"
      unfolding cap by (cases "captured p") simp_all
    have "captured p' = drop (length vs) (drop 1 (captured p @ v # vs))"
      unfolding cap' e by (simp only: len conf n add_diff_cancel_left')
    also have "\<dots> = drop (length (captured p) + length (v # vs)
                            - nat (trainingPeriod (config p))) (captured p @ v # vs)"
      by (simp only: n drop_drop add_diff_cancel_left' list.size length_Cons) simp
    finally show ?thesis
      using run conf' by (simp add: step conf)
  qed
qed

section \<open>The claims\<close>

text \<open>
  C1. The claim: while the history is shorter than the training period the weight is
  \<open>1 - 1/(n+1)\<close>, so that from the fresh state \<open>s1\<close> is the arithmetic mean of the values
  ingested so far. On the code the quotient is an integer quotient (see \<open>alpha_warmup\<close>):
  with training period 3, after the value 1 the weight for the next value is 1, not 1/2,
  and ingesting 3 leaves \<open>s1\<close> at 1, not at the mean 2.
\<close>

theorem alpha_warmup_integer_quotient:
  "\<exists>c p1 p2. NewConfig adapt 3 (Fin (9/10)) (Fin (3/10)) = Inr c
     \<and> Add (New c) (Fin 1) = Inr p1
     \<and> alpha p1 (Fin 3) = Inr (Fin 1)
     \<and> Add p1 (Fin 3) = Inr p2
     \<and> s1 (factors p2) = Fin 1"
  by (simp add: NewConfig_def Add_warmup New_on_def alpha_warmup factors_New_Fin)

text \<open>
  C2. The claim: once the history has reached the training period the weight is
  \<open>(1 - beta * density v) * alpha0\<close> with the \<open>alpha0\<close> and \<open>beta\<close> that were passed to
  \<^verbatim>\<open>NewConfig\<close>. On the code \<^verbatim>\<open>NewConfig\<close> stores \<^verbatim>\<open>adapt\<close> in place of
  the \<open>alpha0\<close> it validated: the calls with \<open>alpha0 = 0.5\<close> and with \<open>alpha0 = 0.9\<close>
  return the same configuration, and with training period 1, after the value 5, the
  weight for the value 7 (of density 0) is \<^verbatim>\<open>adapt\<close> in both cases.
\<close>

theorem NewConfig_stores_adapt:
  "\<exists>c p1. NewConfig adapt 1 (Fin (1/2)) (Fin (3/10)) = Inr c
     \<and> NewConfig adapt 1 (Fin (9/10)) (Fin (3/10)) = Inr c
     \<and> alpha0Weight c = adapt
     \<and> Add (New c) (Fin 5) = Inr p1
     \<and> pt (factors p1) (Fin 7) = Fin 0
     \<and> alpha p1 (Fin 7) = Inr adapt"
  by (simp add: NewConfig_def New_on_def Add_warmup factors_New_Fin alpha_trained
      pt_zero_std_ne fmul_one_left fsub_def)

text \<open>
  C3. \<^verbatim>\<open>factors.New\<close>, in any arithmetic: the state it returns has
  \<open>s1' = alpha * s1 + (1 - alpha) * v\<close>, \<open>s2' = alpha * s2 + (1 - alpha) * (v * v)\<close> and
  \<open>stdDeviation' = Sqrt (s2' - s1' * s1')\<close>, each operator being the arithmetic's, and
  the run leaves the state it was called on as it was.
\<close>

theorem factors_New_update:
  "snd (run_state (factors_New_call M a v) f) = f
   \<and> fst (run_state (factors_New_call M a v) f) = factors_New_on M f a v
   \<and> s1 (factors_New_on M f a v) =
       fp_add M (fp_mul M a (s1 f)) (fp_mul M (fp_sub M (fp_of_real M 1) a) v)
   \<and> s2 (factors_New_on M f a v) =
       fp_add M (fp_mul M a (s2 f)) (fp_mul M (fp_sub M (fp_of_real M 1) a) (fp_mul M v v))
   \<and> stdDeviation (factors_New_on M f a v) =
       fp_Sqrt M (fp_sub M (s2 (factors_New_on M f a v))
                           (fp_mul M (s1 (factors_New_on M f a v))
                                     (s1 (factors_New_on M f a v))))"
  by (simp add: factors_New_on_def run_factors_New_call)

text \<open>
  C4. \<^verbatim>\<open>Analyze\<close>, in any arithmetic, returns \<open>InTraining\<close> exactly when the history
  is shorter than the training period; otherwise \<open>Outlier\<close> exactly when the density of
  \<open>v\<close> is \<open>\<le>\<close> the threshold, and \<open>InOrdinary\<close> otherwise. The density is
  \<open>Exp (- (z * z) / 2) / Sqrt (2 pi)\<close> for \<open>z = (v - s1) / stdDeviation\<close>, on the
  statistics the processor holds, each operator being the arithmetic's.
\<close>

theorem Analyze_classification:
  "(Analyze_on M p v threshold = InTraining) =
     (int (length (captured p)) < trainingPeriod (config p))
   \<and> (Analyze_on M p v threshold = Outlier) =
       (\<not> int (length (captured p)) < trainingPeriod (config p)
        \<and> fp_le M (pt_on M (factors p) v) threshold)
   \<and> (Analyze_on M p v threshold = InOrdinary) =
       (\<not> int (length (captured p)) < trainingPeriod (config p)
        \<and> \<not> fp_le M (pt_on M (factors p) v) threshold)
   \<and> pt_on M (factors p) v =
       fp_quo M
         (fp_Exp M
            (fp_quo M
               (fp_neg M
                  (fp_mul M
                     (fp_quo M (fp_sub M v (s1 (factors p))) (stdDeviation (factors p)))
                     (fp_quo M (fp_sub M v (s1 (factors p))) (stdDeviation (factors p)))))
               (fp_of_real M 2)))
         (fp_Sqrt M (fp_of_real M (2 * pi)))"
  by (simp add: Analyze_on_eq pt_on_def zt_on_def Let_def)

text \<open>
  C5. \<^verbatim>\<open>NewConfig\<close> fails with the alpha error exactly when \<open>alpha0 \<le> 0\<close> or
  \<open>1 \<le> alpha0\<close>; it fails with the beta error exactly when \<open>alpha0\<close> passed that check and
  \<open>beta < 0\<close> or \<open>1 \<le> beta\<close>; and for \<open>0 < alpha0 < 1\<close> and \<open>0 \<le> beta < 1\<close> it succeeds
  with the training period it was given, whatever that is.
\<close>

theorem NewConfig_validation:
  "(NewConfig adapt t alpha0 beta = Inl InvalidAlpha) =
     (fle alpha0 (Fin 0) \<or> fle (Fin 1) alpha0)
   \<and> (NewConfig adapt t alpha0 beta = Inl InvalidBeta) =
       (\<not> (fle alpha0 (Fin 0) \<or> fle (Fin 1) alpha0)
        \<and> (flt beta (Fin 0) \<or> fle (Fin 1) beta))
   \<and> (flt (Fin 0) alpha0 \<and> flt alpha0 (Fin 1) \<and> fle (Fin 0) beta \<and> flt beta (Fin 1) \<longrightarrow>
        NewConfig adapt t alpha0 beta =
          Inr \<lparr>trainingPeriod = t, alpha0Weight = adapt, betaWeight = beta\<rparr>)"
  by (cases alpha0; cases beta) (auto simp add: NewConfig_def)

text \<open>A negative training period, with valid weights.\<close>

theorem NewConfig_validation_witness:
  "flt (Fin 0) (Fin (9/10)) \<and> flt (Fin (9/10)) (Fin 1)
   \<and> fle (Fin 0) (Fin 0) \<and> flt (Fin 0) (Fin 1)
   \<and> NewConfig (Fin (9/10)) (- 1) (Fin (9/10)) (Fin 0) =
       Inr \<lparr>trainingPeriod = - 1, alpha0Weight = Fin (9/10), betaWeight = Fin 0\<rparr>"
  using NewConfig_validation [of "Fin (9/10)" "- 1" "Fin (9/10)" "Fin 0"] by simp

text \<open>
  C6. With a training period \<open>T \<ge> 1\<close>, a chain of \<^verbatim>\<open>Add\<close> from the fresh processor
  never panics and leaves a history of at most \<open>T\<close> values; after more than \<open>T\<close> values the
  history has exactly \<open>T\<close> elements, the last \<open>T\<close> values ingested, in their order.
\<close>

theorem Add_all_window:
  assumes "1 \<le> trainingPeriod conf"
  shows "\<exists>p. Add_all (New conf) vs = Inr p
     \<and> int (length (captured p)) \<le> trainingPeriod conf
     \<and> (trainingPeriod conf < int (length vs) \<longrightarrow>
          int (length (captured p)) = trainingPeriod conf
          \<and> captured p = drop (length vs - nat (trainingPeriod conf)) vs)"
proof -
  have "int (length (captured (New conf))) \<le> trainingPeriod (config (New conf))"
    using assms by (simp add: New_on_def)
  from Add_all_captured [OF this, of ideal vs]
  obtain p where p: "Add_all (New conf) vs = Inr p"
    and cap: "captured p = drop (length vs - nat (trainingPeriod conf)) vs"
    by (auto simp add: New_on_def)
  have "int (length (captured p)) \<le> trainingPeriod conf"
    using assms by (simp add: cap)
  moreover have "trainingPeriod conf < int (length vs) \<Longrightarrow>
                 int (length (captured p)) = trainingPeriod conf"
    using assms by (simp add: cap)
  ultimately show ?thesis
    using p cap by blast
qed

theorem Add_all_window_witness:
  "(1::int) \<le> 2 \<and> (2::int) < int (length [Fin 1, Fin 2, Fin 3])
   \<and> (\<exists>p. Add_all (New \<lparr>trainingPeriod = 2, alpha0Weight = Fin (9/10),
                          betaWeight = Fin (3/10)\<rparr>)
             [Fin 1, Fin 2, Fin 3] = Inr p
        \<and> captured p = [Fin 2, Fin 3])"
  using Add_all_window
    [of "\<lparr>trainingPeriod = 2, alpha0Weight = Fin (9/10), betaWeight = Fin (3/10)\<rparr>"
        "[Fin 1, Fin 2, Fin 3]"]
  by (auto simp del: Add_all_on.simps)

text \<open>
  C7. \<^verbatim>\<open>Add\<close>, in any arithmetic and for any value, has no failing path. The weight
  comes from the processor as it is before the call: from the length of its history
  during warm-up, from the density of \<open>v\<close> under its statistics afterwards. The result
  carries the configuration unchanged, the history with \<open>v\<close> appended and the oldest
  value dropped once the training period is exceeded, and the statistics computed from
  the statistics before the call, that weight and \<open>v\<close>.
\<close>

theorem Add_two_phase:
  "Add_on M p v =
     (let n = int (length (captured p));
          a = (if n < trainingPeriod (config p)
               then fp_of_real M (real_of_int (1 - 1 sdiv (n + 1)))
               else fp_mul M
                      (fp_sub M (fp_of_real M 1)
                         (fp_mul M (betaWeight (config p)) (pt_on M (factors p) v)))
                      (alpha0Weight (config p)));
          s1' = fp_add M (fp_mul M a (s1 (factors p)))
                         (fp_mul M (fp_sub M (fp_of_real M 1) a) v);
          s2' = fp_add M (fp_mul M a (s2 (factors p)))
                         (fp_mul M (fp_sub M (fp_of_real M 1) a) (fp_mul M v v))
      in Inr \<lparr>captured = (if trainingPeriod (config p) < n + 1
                           then drop 1 (captured p @ [v]) else captured p @ [v]),
              config = config p,
              factors = \<lparr>s1 = s1', s2 = s2',
                         stdDeviation = fp_Sqrt M (fp_sub M s2' (fp_mul M s1' s1'))\<rparr>\<rparr>)
   \<and> alpha_on M p v =
       Inr (if int (length (captured p)) < trainingPeriod (config p)
            then fp_of_real M (real_of_int (1 - 1 sdiv (int (length (captured p)) + 1)))
            else fp_mul M
                   (fp_sub M (fp_of_real M 1)
                      (fp_mul M (betaWeight (config p)) (pt_on M (factors p) v)))
                   (alpha0Weight (config p)))"
  by (simp add: Add_on_def alpha_on_def int_quo_def pushAndPop_eq factors_New_on_def
      run_factors_New_call Let_def)

text \<open>
  C8. \<^verbatim>\<open>Analyze\<close> is a query: a run leaves the processor (configuration, history and
  statistics) as it was, and two runs in a row with the same arguments return the same
  status and still leave the processor as it was.
\<close>

theorem Analyze_call_pure:
  "snd (run_state (Analyze_call M v threshold) p) = p
   \<and> run_state
       (do { a \<leftarrow> Analyze_call M v threshold;
             b \<leftarrow> Analyze_call M v threshold;
             State_Monad.return (a, b) }) p =
     ((Analyze_on M p v threshold, Analyze_on M p v threshold), p)"
  by (simp add: run_Analyze_call Analyze_on_eq)

text \<open>
  C9. \<^verbatim>\<open>NewConfig(5, 0.9, 0.3)\<close> succeeds; the fresh processor that has ingested
  1, 1, 1, 1, 1 classifies 1 as \<open>InOrdinary\<close> and 1000 as \<open>Outlier\<close> at threshold 0.01.
\<close>

theorem scenario_five_ones:
  "\<exists>c p. NewConfig adapt 5 (Fin (9/10)) (Fin (3/10)) = Inr c
     \<and> Add_all (New c) [Fin 1, Fin 1, Fin 1, Fin 1, Fin 1] = Inr p
     \<and> Analyze p (Fin 1) (Fin (1/100)) = InOrdinary
     \<and> Analyze p (Fin 1000) (Fin (1/100)) = Outlier"
  by (simp add: NewConfig_def New_on_def Add_warmup factors_New_Fin Analyze_on_eq
      pt_zero_std_ne pt_zero_std_eq)

text \<open>
  C10, as the claim states it: with a standard deviation of exactly 0 and a full history,
  every \<open>v\<close> that differs from \<open>s1\<close> is an \<open>Outlier\<close> at a threshold \<open>\<ge> 0\<close>. It fails for
  \<open>v = NaN\<close>: on the fresh processor of the zero \<^verbatim>\<open>Config{}\<close> (training period 0,
  \<open>s1 = 0\<close>, deviation 0) the z-score of NaN is NaN, so is its density, and the
  comparison with the threshold 0.5 is false.
\<close>

theorem Analyze_zero_deviation_NaN:
  "stdDeviation
     (factors (New \<lparr>trainingPeriod = 0, alpha0Weight = Fin 0, betaWeight = Fin 0\<rparr>)) = Fin 0
   \<and> trainingPeriod
       (config (New \<lparr>trainingPeriod = 0, alpha0Weight = Fin 0, betaWeight = Fin 0\<rparr>))
     \<le> int (length
         (captured (New \<lparr>trainingPeriod = 0, alpha0Weight = Fin 0, betaWeight = Fin 0\<rparr>)))
   \<and> NaN \<noteq> s1 (factors (New \<lparr>trainingPeriod = 0, alpha0Weight = Fin 0, betaWeight = Fin 0\<rparr>))
   \<and> fle (Fin 0) (Fin (1/2))
   \<and> Analyze (New \<lparr>trainingPeriod = 0, alpha0Weight = Fin 0, betaWeight = Fin 0\<rparr>)
        NaN (Fin (1/2)) = InOrdinary"
  by (simp add: New_on_def Analyze_on_eq pt_on_def zt_on_def fsub_def)

text \<open>
  C10, amended: with a standard deviation of exactly 0 and a full history,
  \<^verbatim>\<open>Analyze\<close> returns \<open>InOrdinary\<close> for every threshold when \<open>v\<close> equals \<open>s1\<close>, and
  \<open>Outlier\<close> when \<open>v\<close> differs from \<open>s1\<close>, neither of the two is NaN, and the threshold
  is \<open>\<ge> 0\<close>.
\<close>

theorem Analyze_zero_deviation:
  assumes "stdDeviation (factors p) = Fin 0"
    and "trainingPeriod (config p) \<le> int (length (captured p))"
  shows "(v = s1 (factors p) \<longrightarrow> Analyze p v threshold = InOrdinary)
    \<and> (v \<noteq> s1 (factors p) \<and> v \<noteq> NaN \<and> s1 (factors p) \<noteq> NaN \<and> fle (Fin 0) threshold \<longrightarrow>
         Analyze p v threshold = Outlier)"
  using assms by (auto simp add: Analyze_on_eq pt_zero_std_ne pt_zero_std_eq)

theorem Analyze_zero_deviation_witness:
  "Analyze \<lparr>captured = [Fin 1],
            config = \<lparr>trainingPeriod = 1, alpha0Weight = Fin (9/10), betaWeight = Fin (3/10)\<rparr>,
            factors = \<lparr>s1 = Fin 1, s2 = Fin 1, stdDeviation = Fin 0\<rparr>\<rparr>
           (Fin 1) (Fin (1/100)) = InOrdinary
   \<and> Analyze \<lparr>captured = [Fin 1],
            config = \<lparr>trainingPeriod = 1, alpha0Weight = Fin (9/10), betaWeight = Fin (3/10)\<rparr>,
            factors = \<lparr>s1 = Fin 1, s2 = Fin 1, stdDeviation = Fin 0\<rparr>\<rparr>
           (Fin 1000) (Fin (1/100)) = Outlier"
  using
    Analyze_zero_deviation
      [of "\<lparr>captured = [Fin 1],
            config = \<lparr>trainingPeriod = 1, alpha0Weight = Fin (9/10), betaWeight = Fin (3/10)\<rparr>,
            factors = \<lparr>s1 = Fin 1, s2 = Fin 1, stdDeviation = Fin 0\<rparr>\<rparr>"
          "Fin 1" "Fin (1/100)"]
    Analyze_zero_deviation
      [of "\<lparr>captured = [Fin 1],
            config = \<lparr>trainingPeriod = 1, alpha0Weight = Fin (9/10), betaWeight = Fin (3/10)\<rparr>,
            factors = \<lparr>s1 = Fin 1, s2 = Fin 1, stdDeviation = Fin 0\<rparr>\<rparr>"
          "Fin 1000" "Fin (1/100)"]
  by simp

end
